theory Spec2Isabelle
  imports Complex_Main
begin

section \<open>The reconnecting websocket (class ReconnectingWebsocket)\<close>

text \<open>
  The embedding follows \<^verbatim>\<open>src/binance/websockets.py\<close>. A leading underscore of a Python
  name is dropped (\<^verbatim>\<open>_reconnect\<close> is \<open>reconnect\<close>); the private \<^verbatim>\<open>_start_user_socket\<close> is
  \<open>priv_start_user_socket\<close>, since the public method of the same name exists too.

  Everything a coroutine does to the outside world is recorded, in order, in a list of
  effects. What the outside world answers at an \<^verbatim>\<open>await\<close> (the outcome of opening the
  transport, of each \<^verbatim>\<open>recv\<close>, of a ping, the number drawn by \<^verbatim>\<open>random()\<close>, the listen key
  the REST client returns) is an argument of the function that models the coroutine.
\<close>

text \<open>
  The exception classes that the \<^verbatim>\<open>except\<close> clauses of \<^verbatim>\<open>_run\<close> tell apart:
  \<^verbatim>\<open>socket.gaierror\<close>, \<^verbatim>\<open>asyncio.CancelledError\<close>, \<^verbatim>\<open>ConnectionClosed\<close>,
  \<^verbatim>\<open>asyncio.TimeoutError\<close>, and any other subclass of \<^verbatim>\<open>Exception\<close>; of these,
  \<^verbatim>\<open>RuntimeError\<close> has a name of its own, since awaiting a task can raise it.
\<close>

datatype exc =
  Gaierror | CancelledError | ConnectionClosed | TimeoutError | RuntimeError | OtherException

text \<open>One constructor for each logging statement of the source, with the values it formats.\<close>

datatype log_record =
    Connected_to string
  | Ping_OK
  | Error_parsing string
  | Debug_gaierror
  | Debug_cancelled_error
  | Debug_connection_closed
  | Debug_ws_exception exc
  | Reconnecting string int int
  | Max_reconnections int
  | Cancelling string
  | Closing_socket
  | Socket_closed
  | Cancelling_task
  | Task_cancelled

text \<open>
  Transports, tasks and timer handles are objects of the runtime; the model names them by
  numbers. \<open>Open url\<close> is \<^verbatim>\<open>connect(ws_url, ...)\<close>; \<open>Close k\<close> is closing transport \<open>k\<close>
  (\<^verbatim>\<open>_socket.close()\<close>, or leaving the \<^verbatim>\<open>async with\<close> block); \<open>EnsureFuture p t\<close> is
  \<^verbatim>\<open>asyncio.ensure_future(self._run())\<close> of the session with path \<open>p\<close>, creating task \<open>t\<close>;
  \<open>CancelTask p t\<close> and \<open>AwaitTask p t\<close> are \<^verbatim>\<open>self._conn.cancel()\<close> and \<^verbatim>\<open>await self._conn\<close>;
  \<open>Invoke d\<close> is \<^verbatim>\<open>await self._coro(d)\<close>; \<open>CallLater n h\<close> is \<^verbatim>\<open>loop.call_later(n, ...)\<close>
  returning handle \<open>h\<close>; \<open>StreamGetListenKey\<close> is \<^verbatim>\<open>client.stream_get_listen_key()\<close>; \<open>StreamClose k\<close> is \<^verbatim>\<open>client.stream_close(listenKey=k)\<close>.
\<close>

datatype 'd effect =
    Log log_record
  | Open string
  | Close nat
  | Ping nat
  | Invoke 'd
  | Sleep int
  | EnsureFuture string nat
  | CancelTask string nat
  | AwaitTask string nat
  | CallLater nat nat
  | TimerCancel nat
  | StreamGetListenKey
  | StreamClose string

text \<open>
  The fields of a \<^verbatim>\<open>ReconnectingWebsocket\<close>. The handler \<open>coro\<close> maps a decoded document to
  \<open>None\<close> when it returns and to \<open>Some e\<close> when it raises \<open>e\<close>. The counter \<open>reconnects\<close>
  starts at 0 and is only reset to 0 or incremented, so it is a natural number.
\<close>

record 'd session =
  path :: string
  coro :: "'d \<Rightarrow> exc option"
  prefix :: string
  reconnects :: nat
  conn :: "nat option"
  socket :: "nat option"

definition STREAM_URL :: string where
  "STREAM_URL = ''wss://stream.binance.com:9443/''"

definition MAX_RECONNECTS :: nat where
  "MAX_RECONNECTS = 20"

definition MAX_RECONNECT_SECONDS :: int where
  "MAX_RECONNECT_SECONDS = 60"

text \<open>\<^verbatim>\<open>_connect\<close>: a new task running \<^verbatim>\<open>_run\<close> replaces \<^verbatim>\<open>self._conn\<close>.\<close>

definition connect :: "'d session \<Rightarrow> 'd session \<times> 'd effect list" where
  "connect s =
     (let t = (case conn s of None \<Rightarrow> 0 | Some t' \<Rightarrow> Suc t')
      in (s\<lparr>conn := Some t\<rparr>, [EnsureFuture (path s) t]))"

text \<open>\<^verbatim>\<open>__init__\<close>: the fields are set and \<^verbatim>\<open>_connect\<close> is called.\<close>

definition new_session ::
  "string \<Rightarrow> ('d \<Rightarrow> exc option) \<Rightarrow> string \<Rightarrow> 'd session \<times> 'd effect list" where
  "new_session p c pre =
     connect \<lparr>path = p, coro = c, prefix = pre, reconnects = 0, conn = None, socket = None\<rparr>"

text \<open>
  Python 3 \<^verbatim>\<open>round\<close> of a float: to the nearest integer, a tie going to the even one.
  The float is idealised as a real number.
\<close>

definition py_round :: "real \<Rightarrow> int" where
  "py_round x =
     (let f = \<lfloor>x\<rfloor>; d = x - of_int f
      in if d < 1 / 2 then f
         else if 1 / 2 < d then f + 1
         else if even f then f else f + 1)"

text \<open>\<^verbatim>\<open>_get_reconnect_wait\<close>; \<open>r\<close> is the value returned by \<^verbatim>\<open>random()\<close>.\<close>

definition get_reconnect_wait :: "nat \<Rightarrow> real \<Rightarrow> int" where
  "get_reconnect_wait attempts r =
     (let expo = (2::int) ^ attempts
      in py_round (r * of_int (min MAX_RECONNECT_SECONDS (expo - 1)) + 1))"

text \<open>
  What \<^verbatim>\<open>await self._conn\<close> answers in \<^verbatim>\<open>cancel\<close>: the awaited task has returned, or the
  await raises. It raises \<^verbatim>\<open>CancelledError\<close> when the task ends cancelled, and also when
  the task awaits itself, as it does when \<^verbatim>\<open>_reconnect\<close> calls \<^verbatim>\<open>cancel\<close>. It raises
  \<^verbatim>\<open>RuntimeError\<close> when another caller awaits a task that has awaited itself and has not
  ended yet, which is the state of the task during the backoff sleep of \<^verbatim>\<open>_reconnect\<close>.
\<close>

datatype await_outcome = AwaitReturns | AwaitRaises exc

text \<open>
  \<^verbatim>\<open>cancel\<close>: close the transport if there is one, cancel and await the task if there is
  one, clear the transport handle. Only a \<^verbatim>\<open>CancelledError\<close> of the await is swallowed:
  any other exception leaves \<^verbatim>\<open>cancel\<close> before the transport handle is cleared, and is the
  third component of the result. What the awaited task itself does while the caller waits
  is the run of that task (\<open>run\<close> below) and is not repeated here.
\<close>

definition cancel ::
  "await_outcome \<Rightarrow> 'd session \<Rightarrow> 'd session \<times> 'd effect list \<times> exc option" where
  "cancel a s =
     (let e1 = [Log (Cancelling (path s))]
               @ (case socket s of None \<Rightarrow> []
                  | Some k \<Rightarrow> [Log Closing_socket, Close k, Log Socket_closed])
      in case conn s of
           None \<Rightarrow> (s\<lparr>socket := None\<rparr>, e1 @ [Log Task_cancelled], None)
         | Some t \<Rightarrow>
             (let e2 = e1 @ [CancelTask (path s) t, Log Cancelling_task, AwaitTask (path s) t]
              in case a of
                   AwaitReturns \<Rightarrow> (s\<lparr>socket := None\<rparr>, e2 @ [Log Task_cancelled], None)
                 | AwaitRaises e \<Rightarrow>
                     if e = CancelledError
                     then (s\<lparr>socket := None\<rparr>, e2 @ [Log Task_cancelled], None)
                     else (s, e2, Some e)))"

text \<open>
  \<^verbatim>\<open>_reconnect\<close>; \<open>r\<close> is the value \<^verbatim>\<open>random()\<close> returns if it is called. \<^verbatim>\<open>_reconnect\<close>
  runs in the task of the session, so in \<^verbatim>\<open>cancel\<close> the task cancels and awaits itself:
  the await raises \<^verbatim>\<open>CancelledError\<close>, which \<^verbatim>\<open>cancel\<close> swallows, and \<^verbatim>\<open>cancel\<close> returns.
\<close>

definition reconnect :: "real \<Rightarrow> 'd session \<Rightarrow> 'd session \<times> 'd effect list" where
  "reconnect r s =
     (case cancel (AwaitRaises CancelledError) s of
        (s1, e1, _) \<Rightarrow>
          (let s2 = s1\<lparr>reconnects := reconnects s1 + 1\<rparr>
           in if reconnects s2 < MAX_RECONNECTS then
                let reconnect_wait = get_reconnect_wait (reconnects s2) r;
                    (s3, e3) = connect s2
                in (s3, e1
                        @ [Log (Reconnecting (path s2)
                                 (int MAX_RECONNECTS - int (reconnects s2)) reconnect_wait),
                           Sleep reconnect_wait]
                        @ e3)
              else (s2, e1 @ [Log (Max_reconnections (int MAX_RECONNECTS))])))"

text \<open>
  What the transport answers in one iteration of the receive loop: a frame, or an exception
  raised by \<^verbatim>\<open>recv\<close> together with the outcome of the ping that follows it when the
  exception is a timeout or a closed connection.
\<close>

datatype ping_outcome = Pong | PingRaises exc

datatype recv_event = Recv string | RecvRaises exc ping_outcome

text \<open>
  One iteration of the \<^verbatim>\<open>while keep_waiting\<close> loop. \<open>loads\<close> is \<^verbatim>\<open>orjson.loads\<close>, \<open>None\<close>
  standing for a \<^verbatim>\<open>JSONDecodeError\<close>. The result is \<open>None\<close> when the loop goes on and
  \<open>Some e\<close> when \<open>e\<close> leaves the loop. The loop reads the transport from \<^verbatim>\<open>self._socket\<close>:
  were it \<^verbatim>\<open>None\<close>, calling \<^verbatim>\<open>recv\<close> on it would raise an \<^verbatim>\<open>AttributeError\<close>.
\<close>

definition loop_body ::
  "(string \<Rightarrow> 'd option) \<Rightarrow> 'd session \<Rightarrow> recv_event \<Rightarrow> exc option \<times> 'd effect list" where
  "loop_body loads s ev =
     (case socket s of
        None \<Rightarrow> (Some OtherException, [])
      | Some k \<Rightarrow>
          (case ev of
             RecvRaises e p \<Rightarrow>
               if e = TimeoutError \<or> e = ConnectionClosed then
                 (case p of
                    Pong \<Rightarrow> (None, [Ping k, Log Ping_OK])
                  | PingRaises e' \<Rightarrow> (Some e', [Ping k]))
               else (Some e, [])
           | Recv evt \<Rightarrow>
               (case loads evt of
                  None \<Rightarrow> (None, [Log (Error_parsing evt)])
                | Some evt_obj \<Rightarrow> (coro s evt_obj, [Invoke evt_obj]))))"

text \<open>
  The loop over the events that arrive. \<^verbatim>\<open>keep_waiting\<close> is never set to false, so the loop
  ends only by an exception; when the events run out the task is suspended in \<^verbatim>\<open>recv\<close>.
\<close>

fun receive_loop ::
  "(string \<Rightarrow> 'd option) \<Rightarrow> 'd session \<Rightarrow> recv_event list \<Rightarrow> exc option \<times> 'd effect list" where
  "receive_loop loads s [] = (None, [])"
| "receive_loop loads s (ev # evs) =
     (case loop_body loads s ev of
        (Some e, es) \<Rightarrow> (Some e, es)
      | (None, es) \<Rightarrow> (case receive_loop loads s evs of (x, es') \<Rightarrow> (x, es @ es')))"

text \<open>The four \<^verbatim>\<open>except\<close> clauses of \<^verbatim>\<open>_run\<close>, in the order of the source.\<close>

fun run_except :: "exc \<Rightarrow> real \<Rightarrow> 'd session \<Rightarrow> 'd session \<times> 'd effect list" where
  "run_except Gaierror r s =
     (case reconnect r s of (s', es) \<Rightarrow> (s', Log Debug_gaierror # es))"
| "run_except CancelledError r s =
     (case reconnect r s of (s', es) \<Rightarrow> (s', Log Debug_cancelled_error # es))"
| "run_except ConnectionClosed r s =
     (case reconnect r s of (s', es) \<Rightarrow> (s', Log Debug_connection_closed # es))"
| "run_except e r s =
     (case reconnect r s of (s', es) \<Rightarrow> (s', Log (Debug_ws_exception e) # es))"

text \<open>
  \<^verbatim>\<open>_run\<close>. The task either is still suspended in the receive loop when the events run out
  (\<open>Waiting\<close>) or has returned (\<open>Returned\<close>).
\<close>

datatype connect_outcome = Opened nat | OpenRaises exc

datatype task_status = Waiting | Returned

definition run ::
  "(string \<Rightarrow> 'd option) \<Rightarrow> connect_outcome \<Rightarrow> recv_event list \<Rightarrow> real \<Rightarrow> 'd session
     \<Rightarrow> task_status \<times> 'd session \<times> 'd effect list" where
  "run loads c evs r s =
     (let ws_url = STREAM_URL @ prefix s @ path s
      in case c of
           OpenRaises e \<Rightarrow>
             (case run_except e r s of (s', es) \<Rightarrow> (Returned, s', Open ws_url # es))
         | Opened k \<Rightarrow>
             (let s1 = s\<lparr>socket := Some k, reconnects := 0\<rparr>;
                  e1 = [Open ws_url, Log (Connected_to (path s))]
              in case receive_loop loads s1 evs of
                   (None, es) \<Rightarrow> (Waiting, s1, e1 @ es)
                 | (Some e, es) \<Rightarrow>
                     (case run_except e r s1 of
                        (s2, es2) \<Rightarrow> (Returned, s2, e1 @ es @ [Close k] @ es2))))"

section \<open>The socket manager (class BinanceSocketManager)\<close>

text \<open>
  The fields of a \<^verbatim>\<open>BinanceSocketManager\<close>. The dictionary \<^verbatim>\<open>_conns\<close> is a list of pairs in
  insertion order, the order in which Python iterates over it; a key occurs at most once.
  \<open>timers\<close> counts the handles \<^verbatim>\<open>loop.call_later\<close> has returned, and \<open>effects\<close> is what the
  manager and the sessions it calls have done so far.
\<close>

record 'd manager =
  conns :: "(string \<times> 'd session) list"
  user_timer :: "nat option"
  user_listen_key :: "string option"
  user_callback :: "('d \<Rightarrow> exc option) option"
  timers :: nat
  effects :: "'d effect list"

definition user_timeout :: nat where
  "user_timeout = 30 * 60"

text \<open>\<^verbatim>\<open>__init__\<close> of the manager.\<close>

definition new_manager :: "'d manager" where
  "new_manager =
     \<lparr>conns = [], user_timer = None, user_listen_key = None, user_callback = None,
      timers = 0, effects = []\<rparr>"

text \<open>\<^verbatim>\<open>_start_socket\<close>: \<open>None\<close> when the path is registered already.\<close>

definition start_socket ::
  "string \<Rightarrow> ('d \<Rightarrow> exc option) \<Rightarrow> string \<Rightarrow> 'd manager \<Rightarrow> 'd manager \<times> string option" where
  "start_socket p c pre m =
     (if p \<in> set (map fst (conns m)) then (m, None)
      else case new_session p c pre of
             (s, es) \<Rightarrow> (m\<lparr>conns := conns m @ [(p, s)], effects := effects m @ es\<rparr>, Some p))"

text \<open>
  \<^verbatim>\<open>str.lower\<close> on the ASCII range; the model leaves every other character as it is.
\<close>

definition lower_char :: "char \<Rightarrow> char" where
  "lower_char c =
     (case map_of (zip ''ABCDEFGHIJKLMNOPQRSTUVWXYZ'' ''abcdefghijklmnopqrstuvwxyz'') c of
        None \<Rightarrow> c
      | Some l \<Rightarrow> l)"

definition lower :: "string \<Rightarrow> string" where
  "lower s = map lower_char s"

text \<open>\<^verbatim>\<open>start_trade_socket\<close>: the path is returned whatever \<^verbatim>\<open>_start_socket\<close> returns.\<close>

definition start_trade_socket ::
  "string \<Rightarrow> ('d \<Rightarrow> exc option) \<Rightarrow> 'd manager \<Rightarrow> 'd manager \<times> string" where
  "start_trade_socket symbol c m =
     (let p = lower symbol @ ''@trade''
      in case start_socket p c ''ws/'' m of (m', _) \<Rightarrow> (m', p))"

text \<open>\<^verbatim>\<open>start_ticker_socket\<close> and \<^verbatim>\<open>start_multiplex_socket\<close>.\<close>

definition start_ticker_socket ::
  "('d \<Rightarrow> exc option) \<Rightarrow> 'd manager \<Rightarrow> 'd manager \<times> string" where
  "start_ticker_socket c m =
     (let p = ''!ticker@arr''
      in case start_socket p c ''ws/'' m of (m', _) \<Rightarrow> (m', p))"

fun join_slash :: "string list \<Rightarrow> string" where
  "join_slash [] = []"
| "join_slash [x] = x"
| "join_slash (x # y # ys) = x @ ''/'' @ join_slash (y # ys)"

definition start_multiplex_socket ::
  "string list \<Rightarrow> ('d \<Rightarrow> exc option) \<Rightarrow> 'd manager \<Rightarrow> 'd manager \<times> string" where
  "start_multiplex_socket streams c m =
     (let p = ''streams='' @ join_slash streams
      in case start_socket p c ''stream?'' m of (m', _) \<Rightarrow> (m', p))"

text \<open>\<^verbatim>\<open>_start_user_timer\<close>.\<close>

definition start_user_timer :: "'d manager \<Rightarrow> 'd manager" where
  "start_user_timer m =
     m\<lparr>user_timer := Some (timers m), timers := Suc (timers m),
       effects := effects m @ [CallLater user_timeout (timers m)]\<rparr>"

text \<open>
  \<^verbatim>\<open>_stop_user_socket\<close>. \<^verbatim>\<open>not self._user_listen_key\<close> holds for \<^verbatim>\<open>None\<close> and for the empty
  string.
\<close>

definition stop_user_socket :: "'d manager \<Rightarrow> 'd manager" where
  "stop_user_socket m =
     (case user_listen_key m of
        None \<Rightarrow> m
      | Some k \<Rightarrow>
          if k = [] then m
          else m\<lparr>user_timer := None, user_listen_key := None,
                 effects := effects m
                   @ (case user_timer m of None \<Rightarrow> [] | Some h \<Rightarrow> [TimerCancel h])
                   @ [StreamClose k]\<rparr>)"

text \<open>
  The test \<^verbatim>\<open>len(conn_key) >= 60 and conn_key[:60] == self._user_listen_key\<close> by which the
  manager recognises the key of the user stream.
\<close>

definition is_user_key :: "string option \<Rightarrow> string \<Rightarrow> bool" where
  "is_user_key lk conn_key \<longleftrightarrow> 60 \<le> length conn_key \<and> Some (take 60 conn_key) = lk"

text \<open>
  \<^verbatim>\<open>stop_socket\<close>; \<open>a\<close> is what \<^verbatim>\<open>await self._conn\<close> answers in \<^verbatim>\<open>cancel\<close>. When
  \<^verbatim>\<open>cancel\<close> raises, \<^verbatim>\<open>stop_socket\<close> is left before the \<^verbatim>\<open>del\<close>: the session stays
  registered, as \<^verbatim>\<open>cancel\<close> left it. The second component of the result is the exception
  raised, if any. The calls of the REST client are taken to return.
\<close>

definition stop_socket ::
  "string \<Rightarrow> await_outcome \<Rightarrow> 'd manager \<Rightarrow> 'd manager \<times> exc option" where
  "stop_socket conn_key a m =
     (case map_of (conns m) conn_key of
        None \<Rightarrow> (m, None)
      | Some s \<Rightarrow>
          (case cancel a s of
             (s', es, Some e) \<Rightarrow> (m\<lparr>effects := effects m @ es\<rparr>, Some e)
           | (s', es, None) \<Rightarrow>
               (let m1 = m\<lparr>conns := filter (\<lambda>kv. fst kv \<noteq> conn_key) (conns m),
                            effects := effects m @ es\<rparr>
                in if is_user_key (user_listen_key m1) conn_key
                   then (stop_user_socket m1, None)
                   else (m1, None))))"

text \<open>
  A handler slot may hold \<^verbatim>\<open>None\<close>, the initial value of \<^verbatim>\<open>_user_callback\<close>: calling it
  raises a \<^verbatim>\<open>TypeError\<close>, whatever the document.
\<close>

definition handler_of :: "('d \<Rightarrow> exc option) option \<Rightarrow> 'd \<Rightarrow> exc option" where
  "handler_of callback d = (case callback of None \<Rightarrow> Some OtherException | Some h \<Rightarrow> h d)"

text \<open>
  \<^verbatim>\<open>_start_user_socket\<close>. The loop over \<^verbatim>\<open>_conns\<close> stops the first key that passes the test
  and breaks; an exception of \<^verbatim>\<open>stop_socket\<close> leaves the function. \<^verbatim>\<open>if conn_key\<close> fails
  for \<^verbatim>\<open>None\<close> and for the empty string. The result is the exception raised (\<open>Inl\<close>) or the
  value returned (\<open>Inr\<close>).
\<close>

definition priv_start_user_socket ::
  "string \<Rightarrow> ('d \<Rightarrow> exc option) option \<Rightarrow> await_outcome \<Rightarrow> 'd manager
     \<Rightarrow> 'd manager \<times> (exc + string option)" where
  "priv_start_user_socket key callback a m =
     (case (case user_listen_key m of
              None \<Rightarrow> (m, None)
            | Some old \<Rightarrow>
                if old = [] then (m, None)
                else (case find (is_user_key (user_listen_key m)) (map fst (conns m)) of
                        None \<Rightarrow> (m, None)
                      | Some conn_key \<Rightarrow> stop_socket conn_key a m)) of
        (m1, Some e) \<Rightarrow> (m1, Inl e)
      | (m1, None) \<Rightarrow>
          (let m2 = m1\<lparr>user_listen_key := Some key, user_callback := callback\<rparr>
           in case start_socket key (handler_of callback) ''ws/'' m2 of
                (m3, conn_key) \<Rightarrow>
                  if conn_key \<noteq> None \<and> conn_key \<noteq> Some []
                  then (start_user_timer m3, Inr conn_key)
                  else (m3, Inr conn_key)))"

text \<open>\<^verbatim>\<open>start_user_socket\<close>; \<open>key\<close> is the listen key the REST client returns.\<close>

definition start_user_socket ::
  "string \<Rightarrow> ('d \<Rightarrow> exc option) \<Rightarrow> await_outcome \<Rightarrow> 'd manager
     \<Rightarrow> 'd manager \<times> (exc + string option)" where
  "start_user_socket key c a m =
     priv_start_user_socket key (Some c) a (m\<lparr>effects := effects m @ [StreamGetListenKey]\<rparr>)"

text \<open>
  The coroutine that \<^verbatim>\<open>_keepalive_user_socket\<close> schedules when the timer fires; \<open>key\<close> is the
  listen key the REST client returns. The stored callback is passed on as it is, also when
  it is \<^verbatim>\<open>None\<close>. The second component of the result is the exception the coroutine ends
  with, if any.
\<close>

definition keepalive_user_socket ::
  "string \<Rightarrow> await_outcome \<Rightarrow> 'd manager \<Rightarrow> 'd manager \<times> exc option" where
  "keepalive_user_socket key a m =
     (let m0 = m\<lparr>effects := effects m @ [StreamGetListenKey]\<rparr>
      in if Some key \<noteq> user_listen_key m0 then
           (case priv_start_user_socket key (user_callback m0) a m0 of
              (m', Inl e) \<Rightarrow> (m', Some e)
            | (m', Inr _) \<Rightarrow> (m', None))
         else (start_user_timer m0, None))"

text \<open>
  \<^verbatim>\<open>close\<close>. \<open>keys\<close> is the snapshot \<^verbatim>\<open>set(self._conns.keys())\<close> in the order in which Python
  iterates over that set, an order the runtime chooses; \<open>aw key\<close> is what awaiting the task
  of the session registered under \<open>key\<close> answers. An exception of \<^verbatim>\<open>stop_socket\<close> leaves the
  loop and \<^verbatim>\<open>close\<close>, before \<^verbatim>\<open>self._conns = {}\<close>.
\<close>

fun close_loop ::
  "string list \<Rightarrow> (string \<Rightarrow> await_outcome) \<Rightarrow> 'd manager \<Rightarrow> 'd manager \<times> exc option" where
  "close_loop [] aw m = (m, None)"
| "close_loop (key # keys) aw m =
     (case stop_socket key (aw key) m of
        (m', Some e) \<Rightarrow> (m', Some e)
      | (m', None) \<Rightarrow> close_loop keys aw m')"

definition close ::
  "string list \<Rightarrow> (string \<Rightarrow> await_outcome) \<Rightarrow> 'd manager \<Rightarrow> 'd manager \<times> exc option" where
  "close keys aw m =
     (case close_loop keys aw m of
        (m', Some e) \<Rightarrow> (m', Some e)
      | (m', None) \<Rightarrow> (m'\<lparr>conns := []\<rparr>, None))"

section \<open>Example inputs\<close>

text \<open>
  A session for the trade stream of one symbol whose handler raises on the document
  \<open>''boom''\<close>, and a decoder that rejects the frame \<open>''{''\<close>.
\<close>

definition trade_session :: "nat \<Rightarrow> string session" where
  "trade_session n =
     \<lparr>path = ''btcusdt@trade'', coro = (\<lambda>d. if d = ''boom'' then Some OtherException else None),
      prefix = ''ws/'', reconnects = n, conn = Some n, socket = None\<rparr>"

definition loads_demo :: "string \<Rightarrow> string option" where
  "loads_demo evt = (if evt = ''{'' then None else Some evt)"

text \<open>
  Two handlers, two listen keys of 60 characters and two of 64 characters (the second pair
  has the length of the key shown in the exchange's API documentation),
  and the managers that \<^verbatim>\<open>start_user_socket\<close> builds from a fresh one with a key of
  either length.
\<close>

definition quiet_handler :: "string \<Rightarrow> exc option" where
  "quiet_handler d = None"

definition strict_handler :: "string \<Rightarrow> exc option" where
  "strict_handler d = (if d = ''boom'' then Some OtherException else None)"

definition listen_key_60a :: string where
  "listen_key_60a = ''T3ee22BIYuWqmvne0HNq2A2WsFlEtLhvWCtItw6ffhhdmjifQ2tRbuKkTHhr''"

definition listen_key_60b :: string where
  "listen_key_60b = ''vmyRkT9ZzfPpuLIBWTgG5Yq5jM2sK7dN1cX4hE8oA3bF6uJ0wQiVnSlDtCeH''"

definition listen_key_64a :: string where
  "listen_key_64a = ''pqia91ma19a5s61cv6a81va65sdf19v8a65a1a5s61cv6a81va65sdf19v8a65a1''"

definition listen_key_64b :: string where
  "listen_key_64b = ''x7Gk2mPq9LrT4vNc8WzY1bHd5JfS3aEu6RiO0pQwXtZyBnMlKjUhVgCfDxAs2e4r''"

definition user_manager_60 :: "string manager" where
  "user_manager_60 = fst (start_user_socket listen_key_60a quiet_handler AwaitReturns new_manager)"

definition user_manager_64 :: "string manager" where
  "user_manager_64 = fst (start_user_socket listen_key_64a quiet_handler AwaitReturns new_manager)"

text \<open>
  A manager with two market streams. The first connect attempt of the trade stream has
  failed: its task is in the backoff sleep of \<^verbatim>\<open>_reconnect\<close>, after \<^verbatim>\<open>cancel\<close> and the
  increment of the counter and before \<^verbatim>\<open>_connect\<close>. The ticker stream is connected, with
  the transport 8. The effects are recorded from this state on. Awaiting the sleeping task
  raises \<^verbatim>\<open>RuntimeError\<close>; awaiting the other task, once it is cancelled, returns.
\<close>

definition backoff_manager :: "string manager" where
  "backoff_manager =
     \<lparr>conns = [(''btcusdt@trade'', \<lparr>path = ''btcusdt@trade'', coro = quiet_handler,
                                    prefix = ''ws/'', reconnects = 1, conn = Some 0,
                                    socket = None\<rparr>),
               (''!ticker@arr'', \<lparr>path = ''!ticker@arr'', coro = quiet_handler, prefix = ''ws/'',
                                 reconnects = 0, conn = Some 0, socket = Some 8\<rparr>)],
      user_timer = None, user_listen_key = None, user_callback = None, timers = 0,
      effects = []\<rparr>"

definition backoff_awaits :: "string \<Rightarrow> await_outcome" where
  "backoff_awaits key =
     (if key = ''btcusdt@trade'' then AwaitRaises RuntimeError else AwaitReturns)"

definition clean_awaits :: "string \<Rightarrow> await_outcome" where
  "clean_awaits key = AwaitReturns"

section \<open>The backoff delay\<close>

lemma py_round_lower: "of_int a \<le> x \<Longrightarrow> a \<le> py_round x"
proof -
  assume "of_int a \<le> x"
  then have "a \<le> \<lfloor>x\<rfloor>" by (simp add: le_floor_iff)
  then show ?thesis by (simp add: py_round_def Let_def)
qed

lemma py_round_upper: "x \<le> of_int b \<Longrightarrow> py_round x \<le> b"
proof -
  assume xb: "x \<le> of_int b"
  then have fb: "\<lfloor>x\<rfloor> \<le> b" by (simp add: floor_le_iff)
  show ?thesis
  proof (cases "x - of_int \<lfloor>x\<rfloor> < 1 / 2")
    case True
    then show ?thesis using fb by (simp add: py_round_def Let_def)
  next
    case False
    then have "of_int \<lfloor>x\<rfloor> < x" by simp
    with xb have "of_int \<lfloor>x\<rfloor> < (of_int b :: real)" by linarith
    then have "\<lfloor>x\<rfloor> < b" by simp
    then show ?thesis by (simp add: py_round_def Let_def)
  qed
qed

lemma backoff_cap_nonneg: "0 \<le> min MAX_RECONNECT_SECONDS ((2::int) ^ n - 1)"
  by (simp add: MAX_RECONNECT_SECONDS_def)

text \<open>
  Claim C4. For every attempt count \<open>n\<close> with \<open>1 \<le> n < 20\<close> and every value \<open>r\<close> in
  \<open>[0, 1]\<close> drawn by the random source, the backoff delay
  \<open>round (r * min 60 (2 ^ n - 1) + 1)\<close> that \<^verbatim>\<open>_get_reconnect_wait\<close> computes lies in the
  closed interval from 1 to \<open>min 60 (2 ^ n - 1) + 1\<close>.
\<close>

theorem get_reconnect_wait_bounds:
  assumes "1 \<le> n" and "n < 20" and "0 \<le> r" and "r \<le> 1"
  shows "1 \<le> get_reconnect_wait n r \<and>
         get_reconnect_wait n r \<le> min 60 (2 ^ n - 1) + 1"
proof -
  let ?m = "min MAX_RECONNECT_SECONDS ((2::int) ^ n - 1)"
  have m0: "0 \<le> (of_int ?m :: real)" using backoff_cap_nonneg [of n] by linarith
  have lo: "of_int 1 \<le> r * of_int ?m + 1" using assms(3) m0 by simp
  have "r * of_int ?m \<le> 1 * of_int ?m" using assms(4) m0 by (rule mult_right_mono)
  then have hi: "r * of_int ?m + 1 \<le> of_int (?m + 1)" by simp
  from py_round_lower [OF lo] py_round_upper [OF hi]
  show ?thesis by (simp add: get_reconnect_wait_def Let_def MAX_RECONNECT_SECONDS_def)
qed

text \<open>At the third attempt with the draw one half: \<open>round 4.5\<close> is 4, within 1 and 8.\<close>

theorem get_reconnect_wait_bounds_witness:
  "(1::nat) \<le> 3 \<and> (3::nat) < 20 \<and> (0::real) \<le> 1 / 2 \<and> (1 / 2 :: real) \<le> 1 \<and>
   get_reconnect_wait 3 (1 / 2) = 4 \<and>
   1 \<le> get_reconnect_wait 3 (1 / 2) \<and> get_reconnect_wait 3 (1 / 2) \<le> min 60 (2 ^ 3 - 1) + 1"
  using get_reconnect_wait_bounds [of 3 "1 / 2"]
  by (simp add: get_reconnect_wait_def py_round_def MAX_RECONNECT_SECONDS_def Let_def)

section \<open>Reconnect handling\<close>

lemma cancel_self:
  "cancel (AwaitRaises CancelledError) s =
     (s\<lparr>socket := None\<rparr>,
      [Log (Cancelling (path s))]
      @ (case socket s of None \<Rightarrow> []
         | Some k \<Rightarrow> [Log Closing_socket, Close k, Log Socket_closed])
      @ (case conn s of None \<Rightarrow> []
         | Some t \<Rightarrow> [CancelTask (path s) t, Log Cancelling_task, AwaitTask (path s) t])
      @ [Log Task_cancelled],
      None)"
  by (simp add: cancel_def Let_def split: option.split)



lemma reconnect_below:
  "Suc (reconnects s) < 20 \<Longrightarrow>
   reconnect r s =
     (s\<lparr>socket := None, reconnects := Suc (reconnects s),
        conn := Some (case conn s of None \<Rightarrow> 0 | Some t \<Rightarrow> Suc t)\<rparr>,
      fst (snd (cancel (AwaitRaises CancelledError) s))
      @ [Log (Reconnecting (path s) (20 - int (Suc (reconnects s)))
               (get_reconnect_wait (Suc (reconnects s)) r)),
         Sleep (get_reconnect_wait (Suc (reconnects s)) r),
         EnsureFuture (path s) (case conn s of None \<Rightarrow> 0 | Some t \<Rightarrow> Suc t)])"
  by (simp add: reconnect_def cancel_self connect_def MAX_RECONNECTS_def Let_def)

lemma reconnect_exhausted:
  "\<not> Suc (reconnects s) < 20 \<Longrightarrow>
   reconnect r s =
     (s\<lparr>socket := None, reconnects := Suc (reconnects s)\<rparr>,
      fst (snd (cancel (AwaitRaises CancelledError) s)) @ [Log (Max_reconnections 20)])"
  by (simp add: reconnect_def cancel_self MAX_RECONNECTS_def Let_def)

lemma run_except_reconnect:
  "\<exists>l. run_except e r s = (fst (reconnect r s), Log l # snd (reconnect r s))"
  by (cases e) (simp_all add: split_beta)

lemma reconnect_counter: "reconnects (fst (reconnect r s)) = Suc (reconnects s)"
  by (cases "Suc (reconnects s) < 20") (simp_all add: reconnect_below reconnect_exhausted)



section \<open>The receive loop\<close>

lemma receive_loop_append:
  "receive_loop loads s (evs1 @ evs2) =
     (case receive_loop loads s evs1 of
        (Some e, es) \<Rightarrow> (Some e, es)
      | (None, es) \<Rightarrow> (case receive_loop loads s evs2 of (x, es') \<Rightarrow> (x, es @ es')))"
proof (induction evs1)
  case Nil
  show ?case by (simp add: split_beta)
next
  case (Cons ev evs1)
  show ?case
    by (cases "loop_body loads s ev"; cases "receive_loop loads s evs1")
       (auto simp: Cons.IH split: option.splits prod.splits)
qed

lemma run_opened:
  "run loads (Opened k) evs r s =
     (case receive_loop loads (s\<lparr>socket := Some k, reconnects := 0\<rparr>) evs of
        (None, es) \<Rightarrow>
          (Waiting, s\<lparr>socket := Some k, reconnects := 0\<rparr>,
           [Open (STREAM_URL @ prefix s @ path s), Log (Connected_to (path s))] @ es)
      | (Some e, es) \<Rightarrow>
          (Returned, fst (run_except e r (s\<lparr>socket := Some k, reconnects := 0\<rparr>)),
           [Open (STREAM_URL @ prefix s @ path s), Log (Connected_to (path s))] @ es
           @ [Close k] @ snd (run_except e r (s\<lparr>socket := Some k, reconnects := 0\<rparr>))))"
  by (simp add: run_def Let_def split_beta split: option.splits prod.splits)

lemma run_waitingD:
  assumes "run loads (Opened k) evs r s = (Waiting, s1, es1)"
  shows "s1 = s\<lparr>socket := Some k, reconnects := 0\<rparr> \<and>
         (\<exists>es. receive_loop loads s1 evs = (None, es) \<and>
               es1 = [Open (STREAM_URL @ prefix s @ path s), Log (Connected_to (path s))] @ es)"
  using assms unfolding run_opened by (auto split: option.splits prod.splits)

lemma run_returnedD:
  assumes "run loads (Opened k) evs r s = (Returned, s1, es1)"
  shows "\<exists>e. s1 = fst (run_except e r (s\<lparr>socket := Some k, reconnects := 0\<rparr>))"
  using assms unfolding run_opened by (auto split: option.splits prod.splits)

text \<open>
  Claim C6. After every successful connect attempt the reconnect counter is exactly 0,
  however many failed attempts came before: when the transport opens the task enters the
  receive loop with the counter at 0, the counter is 0 for as long as the task stays in the
  loop, and when the loop is left by an exception the counter is 1, counting from 0 again.
\<close>

theorem counter_zero_after_connect:
  "(\<exists>es. run loads (Opened k) [] r s = (Waiting, s\<lparr>socket := Some k, reconnects := 0\<rparr>, es)) \<and>
   (run loads (Opened k) evs r s = (Waiting, s', es') \<longrightarrow>
      reconnects s' = 0 \<and> socket s' = Some k) \<and>
   (run loads (Opened k) evs r s = (Returned, s', es') \<longrightarrow> reconnects s' = 1)"
proof (intro conjI impI)
  show "\<exists>es. run loads (Opened k) [] r s = (Waiting, s\<lparr>socket := Some k, reconnects := 0\<rparr>, es)"
    by (simp add: run_opened)
next
  assume "run loads (Opened k) evs r s = (Waiting, s', es')"
  from run_waitingD [OF this] show "reconnects s' = 0" and "socket s' = Some k" by simp_all
next
  assume "run loads (Opened k) evs r s = (Returned, s', es')"
  from run_returnedD [OF this] obtain e
    where e: "s' = fst (run_except e r (s\<lparr>socket := Some k, reconnects := 0\<rparr>))" by blast
  obtain l where "run_except e r (s\<lparr>socket := Some k, reconnects := 0\<rparr>) =
      (fst (reconnect r (s\<lparr>socket := Some k, reconnects := 0\<rparr>)),
       Log l # snd (reconnect r (s\<lparr>socket := Some k, reconnects := 0\<rparr>)))"
    using run_except_reconnect by blast
  with e have "s' = fst (reconnect r (s\<lparr>socket := Some k, reconnects := 0\<rparr>))" by simp
  then show "reconnects s' = 1"
    by (simp add: reconnect_counter)
qed

text \<open>
  A session that had failed five times connects: the counter is 0 while it receives, and 1
  after the handler has raised.
\<close>

theorem counter_zero_after_connect_witness:
  "run loads_demo (Opened 7) [Recv ''{}''] (1 / 2) (trade_session 5) =
     (Waiting, (trade_session 5)\<lparr>socket := Some 7, reconnects := 0\<rparr>,
      [Open ''wss://stream.binance.com:9443/ws/btcusdt@trade'',
       Log (Connected_to ''btcusdt@trade''), Invoke ''{}'']) \<and>
   reconnects ((trade_session 5)\<lparr>socket := Some 7, reconnects := 0\<rparr>) = 0 \<and>
   (\<exists>s' es'. run loads_demo (Opened 7) [Recv ''boom''] (1 / 2) (trade_session 5)
               = (Returned, s', es') \<and> reconnects s' = 1)"
proof -
  have a: "run loads_demo (Opened 7) [Recv ''{}''] (1 / 2) (trade_session 5) =
     (Waiting, (trade_session 5)\<lparr>socket := Some 7, reconnects := 0\<rparr>,
      [Open ''wss://stream.binance.com:9443/ws/btcusdt@trade'',
       Log (Connected_to ''btcusdt@trade''), Invoke ''{}''])"
    by (simp add: run_def loop_body_def loads_demo_def trade_session_def STREAM_URL_def)
  obtain s' es' where b:
    "run loads_demo (Opened 7) [Recv ''boom''] (1 / 2) (trade_session 5) = (Returned, s', es')"
    by (simp add: run_def loop_body_def loads_demo_def trade_session_def split_beta Let_def)
  from counter_zero_after_connect [of loads_demo 7 "1 / 2" "trade_session 5" "[Recv ''{}'']"
      "(trade_session 5)\<lparr>socket := Some 7, reconnects := 0\<rparr>"] a
  have c: "reconnects ((trade_session 5)\<lparr>socket := Some 7, reconnects := 0\<rparr>) = 0" by simp
  from counter_zero_after_connect [of loads_demo 7 "1 / 2" "trade_session 5" "[Recv ''boom'']" s' es'] b
  have "reconnects s' = 1" by simp
  with a b c show ?thesis by blast
qed

text \<open>
  Claim C7. For every received frame that fails to decode, the session logs the failure,
  drops the frame without invoking the handler, and continues the receive loop on the same
  connection: the run with the frame is the run without it plus one error log record, so
  the frame neither closes the transport nor triggers reconnect handling.
\<close>

theorem malformed_frame_dropped:
  assumes "loads evt = None"
    and "run loads (Opened k) evs1 r s = (Waiting, s1, es1)"
  shows "run loads (Opened k) (evs1 @ [Recv evt]) r s =
           (Waiting, s1, es1 @ [Log (Error_parsing evt)]) \<and>
         run loads (Opened k) (evs1 @ Recv evt # evs2) r s =
           (case run loads (Opened k) (evs1 @ evs2) r s of
              (st, s', es) \<Rightarrow>
                (st, s', es1 @ Log (Error_parsing evt) # drop (length es1) es))"
proof -
  from run_waitingD [OF assms(2)] obtain es where
    s1: "s1 = s\<lparr>socket := Some k, reconnects := 0\<rparr>" and
    rl: "receive_loop loads s1 evs1 = (None, es)" and
    es1: "es1 = [Open (STREAM_URL @ prefix s @ path s), Log (Connected_to (path s))] @ es"
    by blast
  have lb: "loop_body loads s1 (Recv evt) = (None, [Log (Error_parsing evt)])"
    by (simp add: loop_body_def s1 assms(1))
  have one: "receive_loop loads s1 (Recv evt # evs) =
      (case receive_loop loads s1 evs of (x, es') \<Rightarrow> (x, Log (Error_parsing evt) # es'))" for evs
    by (simp add: lb)
  have l1: "receive_loop loads s1 (evs1 @ [Recv evt]) = (None, es @ [Log (Error_parsing evt)])"
    by (simp add: receive_loop_append rl lb)
  have l2: "receive_loop loads s1 (evs1 @ Recv evt # evs2) =
      (case receive_loop loads s1 evs2 of (x, es') \<Rightarrow> (x, es @ Log (Error_parsing evt) # es'))"
    by (simp add: receive_loop_append rl lb split_beta)
  have l3: "receive_loop loads s1 (evs1 @ evs2) =
      (case receive_loop loads s1 evs2 of (x, es') \<Rightarrow> (x, es @ es'))"
    by (simp add: receive_loop_append rl)
  have a: "run loads (Opened k) (evs1 @ [Recv evt]) r s =
           (Waiting, s1, es1 @ [Log (Error_parsing evt)])"
    unfolding run_opened using l1 by (simp add: s1 es1)
  have b: "run loads (Opened k) (evs1 @ Recv evt # evs2) r s =
           (case run loads (Opened k) (evs1 @ evs2) r s of
              (st, s', es) \<Rightarrow>
                (st, s', es1 @ Log (Error_parsing evt) # drop (length es1) es))"
    unfolding run_opened using l2 l3
    by (cases "receive_loop loads s1 evs2") (auto simp: s1 es1 split: option.splits)
  from a b show ?thesis by blast
qed

text \<open>The frame \<open>''{''\<close> between two good frames: both are delivered, the task keeps waiting.\<close>

theorem malformed_frame_dropped_witness:
  "loads_demo ''{'' = None \<and>
   run loads_demo (Opened 7) [Recv ''1''] (1 / 2) (trade_session 0) =
     (Waiting, (trade_session 0)\<lparr>socket := Some 7, reconnects := 0\<rparr>,
      [Open ''wss://stream.binance.com:9443/ws/btcusdt@trade'',
       Log (Connected_to ''btcusdt@trade''), Invoke ''1'']) \<and>
   run loads_demo (Opened 7) [Recv ''1'', Recv ''{'', Recv ''2''] (1 / 2) (trade_session 0) =
     (Waiting, (trade_session 0)\<lparr>socket := Some 7, reconnects := 0\<rparr>,
      [Open ''wss://stream.binance.com:9443/ws/btcusdt@trade'',
       Log (Connected_to ''btcusdt@trade''), Invoke ''1'', Log (Error_parsing ''{''),
       Invoke ''2''])"
proof -
  have h1: "loads_demo ''{'' = None" by (simp add: loads_demo_def)
  have h2: "run loads_demo (Opened 7) [Recv ''1''] (1 / 2) (trade_session 0) =
     (Waiting, (trade_session 0)\<lparr>socket := Some 7, reconnects := 0\<rparr>,
      [Open ''wss://stream.binance.com:9443/ws/btcusdt@trade'',
       Log (Connected_to ''btcusdt@trade''), Invoke ''1''])"
    by (simp add: run_def loop_body_def loads_demo_def trade_session_def STREAM_URL_def)
  have h3: "run loads_demo (Opened 7) ([Recv ''1''] @ [Recv ''2'']) (1 / 2) (trade_session 0) =
     (Waiting, (trade_session 0)\<lparr>socket := Some 7, reconnects := 0\<rparr>,
      [Open ''wss://stream.binance.com:9443/ws/btcusdt@trade'',
       Log (Connected_to ''btcusdt@trade''), Invoke ''1'', Invoke ''2''])"
    by (simp add: run_def loop_body_def loads_demo_def trade_session_def STREAM_URL_def)
  from malformed_frame_dropped [OF h1 h2, of "[Recv ''2'']"] h1 h2 h3
  show ?thesis by simp
qed

text \<open>
  Claim C8. For every successfully decoded message whose handler raises an exception, the
  session does not suppress it and does not continue the receive loop on the same
  connection: the events after it are not read, the transport is closed, and \<^verbatim>\<open>_run\<close>
  passes into reconnect handling.
\<close>

theorem handler_fault_reconnects:
  assumes "loads evt = Some d"
    and "coro s d = Some e"
    and "run loads (Opened k) evs1 r s = (Waiting, s1, es1)"
  shows "\<exists>l. run loads (Opened k) (evs1 @ Recv evt # evs2) r s =
           (Returned, fst (reconnect r s1),
            es1 @ [Invoke d, Close k, Log l] @ snd (reconnect r s1))"
proof -
  from run_waitingD [OF assms(3)] obtain es where
    s1: "s1 = s\<lparr>socket := Some k, reconnects := 0\<rparr>" and
    rl: "receive_loop loads s1 evs1 = (None, es)" and
    es1: "es1 = [Open (STREAM_URL @ prefix s @ path s), Log (Connected_to (path s))] @ es"
    by blast
  have lb: "loop_body loads s1 (Recv evt) = (Some e, [Invoke d])"
    by (simp add: loop_body_def s1 assms(1,2))
  have l: "receive_loop loads s1 (evs1 @ Recv evt # evs2) = (Some e, es @ [Invoke d])"
    by (simp add: receive_loop_append rl lb)
  obtain l where x: "run_except e r s1 = (fst (reconnect r s1), Log l # snd (reconnect r s1))"
    using run_except_reconnect by blast
  have "run loads (Opened k) (evs1 @ Recv evt # evs2) r s =
           (Returned, fst (reconnect r s1),
            es1 @ [Invoke d, Close k, Log l] @ snd (reconnect r s1))"
    unfolding run_opened using l x by (simp add: s1 es1)
  then show ?thesis by blast
qed

text \<open>The handler raises on the second of three frames: the third is never delivered.\<close>

theorem handler_fault_reconnects_witness:
  "loads_demo ''boom'' = Some ''boom'' \<and>
   coro (trade_session 0) ''boom'' = Some OtherException \<and>
   run loads_demo (Opened 7) [Recv ''1'', Recv ''boom'', Recv ''2''] (1 / 2) (trade_session 0) =
     (Returned,
      (trade_session 0)\<lparr>socket := None, reconnects := 1, conn := Some 1\<rparr>,
      [Open ''wss://stream.binance.com:9443/ws/btcusdt@trade'',
       Log (Connected_to ''btcusdt@trade''), Invoke ''1'', Invoke ''boom'', Close 7,
       Log (Debug_ws_exception OtherException),
       Log (Cancelling ''btcusdt@trade''), Log Closing_socket, Close 7, Log Socket_closed,
       CancelTask ''btcusdt@trade'' 0, Log Cancelling_task, AwaitTask ''btcusdt@trade'' 0,
       Log Task_cancelled, Log (Reconnecting ''btcusdt@trade'' 19 2), Sleep 2,
       EnsureFuture ''btcusdt@trade'' 1])"
proof -
  have h1: "loads_demo ''boom'' = Some ''boom''" by (simp add: loads_demo_def)
  have h2: "coro (trade_session 0) ''boom'' = Some OtherException"
    by (simp add: trade_session_def)
  have h3: "run loads_demo (Opened 7) [Recv ''1''] (1 / 2) (trade_session 0) =
     (Waiting, (trade_session 0)\<lparr>socket := Some 7, reconnects := 0\<rparr>,
      [Open ''wss://stream.binance.com:9443/ws/btcusdt@trade'',
       Log (Connected_to ''btcusdt@trade''), Invoke ''1''])"
    by (simp add: run_def loop_body_def loads_demo_def trade_session_def STREAM_URL_def)
  have h4: "reconnect (1 / 2) ((trade_session 0)\<lparr>socket := Some 7, reconnects := 0\<rparr>) =
     ((trade_session 0)\<lparr>socket := None, reconnects := 1, conn := Some 1\<rparr>,
      [Log (Cancelling ''btcusdt@trade''), Log Closing_socket, Close 7, Log Socket_closed,
       CancelTask ''btcusdt@trade'' 0, Log Cancelling_task, AwaitTask ''btcusdt@trade'' 0,
       Log Task_cancelled, Log (Reconnecting ''btcusdt@trade'' 19 2), Sleep 2,
       EnsureFuture ''btcusdt@trade'' 1])"
    by (simp add: trade_session_def reconnect_def connect_def cancel_self get_reconnect_wait_def
        py_round_def MAX_RECONNECTS_def MAX_RECONNECT_SECONDS_def Let_def)
  have h5: "run loads_demo (Opened 7) [Recv ''1'', Recv ''boom'', Recv ''2''] (1 / 2)
              (trade_session 0) =
     (Returned, fst (reconnect (1 / 2) ((trade_session 0)\<lparr>socket := Some 7, reconnects := 0\<rparr>)),
      [Open ''wss://stream.binance.com:9443/ws/btcusdt@trade'',
       Log (Connected_to ''btcusdt@trade''), Invoke ''1'', Invoke ''boom'', Close 7,
       Log (Debug_ws_exception OtherException)]
      @ snd (reconnect (1 / 2) ((trade_session 0)\<lparr>socket := Some 7, reconnects := 0\<rparr>)))"
    by (simp add: run_def loop_body_def loads_demo_def trade_session_def STREAM_URL_def
        Let_def split_beta)
  from handler_fault_reconnects [OF h1 h2 h3, of "[Recv ''2'']"] h1 h2
  show ?thesis by (simp add: h5 h4)
qed

section \<open>Cancellation\<close>

text \<open>
  Claim C1 says that after \<^verbatim>\<open>cancel()\<close> the session never reconnects on its own. The
  theorem evaluates \<^verbatim>\<open>_run\<close> for a session that has just been created and whose connect
  attempt is in flight when \<^verbatim>\<open>cancel()\<close> cancels the task: the \<^verbatim>\<open>CancelledError\<close> is raised
  inside the \<^verbatim>\<open>try\<close> block, its \<^verbatim>\<open>except\<close> clause calls \<^verbatim>\<open>_reconnect\<close>, and a new task is
  scheduled after the backoff sleep.
\<close>

theorem cancelled_connect_schedules_connect:
  "run loads (OpenRaises CancelledError) evs r (fst (new_session p c pre)) =
     (Returned,
      \<lparr>path = p, coro = c, prefix = pre, reconnects = 1, conn = Some 1, socket = None\<rparr>,
      [Open (STREAM_URL @ pre @ p), Log Debug_cancelled_error,
       Log (Cancelling p), CancelTask p 0, Log Cancelling_task, AwaitTask p 0,
       Log Task_cancelled,
       Log (Reconnecting p 19 (get_reconnect_wait 1 r)), Sleep (get_reconnect_wait 1 r),
       EnsureFuture p 1])"
  by (simp add: run_def new_session_def reconnect_def connect_def cancel_self
      MAX_RECONNECTS_def Let_def)

section \<open>Starting a stream\<close>

lemma start_socket_registered:
  "p \<in> set (map fst (conns m)) \<Longrightarrow> start_socket p c pre m = (m, None)"
  by (simp add: start_socket_def)

lemma start_socket_fresh:
  "p \<notin> set (map fst (conns m)) \<Longrightarrow>
   start_socket p c pre m =
     (m\<lparr>conns := conns m
          @ [(p, \<lparr>path = p, coro = c, prefix = pre, reconnects = 0, conn = Some 0,
                  socket = None\<rparr>)],
        effects := effects m @ [EnsureFuture p 0]\<rparr>, Some p)"
  by (simp add: start_socket_def new_session_def connect_def)

lemma map_of_snoc_fresh:
  "p \<notin> set (map fst xs) \<Longrightarrow> map_of (xs @ [(p, s)]) p = Some s"
  by (induction xs) auto

lemma lower_btcusdt: "lower ''BTCUSDT'' = ''btcusdt''"
  by (simp add: lower_def lower_char_def)

text \<open>
  Claim C3. For every identifier and every pair of handlers, starting a stream whose
  identifier is already registered is a no-op: \<^verbatim>\<open>_start_socket\<close> returns the manager as it
  was, so no second session is created, the registry still maps the identifier to the
  original session with the first handler, and nothing else happens; the public start
  methods return the existing identifier.
\<close>

theorem start_registered_is_noop:
  "(p \<in> set (map fst (conns m)) \<longrightarrow> start_socket p c pre m = (m, None)) \<and>
   (lower symbol @ ''@trade'' \<in> set (map fst (conns m)) \<longrightarrow>
      start_trade_socket symbol c m = (m, lower symbol @ ''@trade'')) \<and>
   (''!ticker@arr'' \<in> set (map fst (conns m)) \<longrightarrow>
      start_ticker_socket c m = (m, ''!ticker@arr'')) \<and>
   (''streams='' @ join_slash streams \<in> set (map fst (conns m)) \<longrightarrow>
      start_multiplex_socket streams c m = (m, ''streams='' @ join_slash streams)) \<and>
   (case start_trade_socket symbol c1 m of
      (m1, k) \<Rightarrow>
        start_trade_socket symbol c2 m1 = (m1, k) \<and>
        (k \<notin> set (map fst (conns m)) \<longrightarrow>
           (\<exists>s. map_of (conns m1) k = Some s \<and> coro s = c1)))"
proof -
  let ?k = "lower symbol @ ''@trade''"
  have reg: "?k \<in> set (map fst (conns m')) \<Longrightarrow> start_trade_socket symbol c' m' = (m', ?k)"
    for m' :: "'a manager" and c'
    by (simp add: start_trade_socket_def start_socket_registered Let_def)
  have two: "case start_trade_socket symbol c1 m of
      (m1, k) \<Rightarrow>
        start_trade_socket symbol c2 m1 = (m1, k) \<and>
        (k \<notin> set (map fst (conns m)) \<longrightarrow>
           (\<exists>s. map_of (conns m1) k = Some s \<and> coro s = c1))"
  proof (cases "?k \<in> set (map fst (conns m))")
    case True
    then show ?thesis by (simp add: reg)
  next
    case False
    let ?s = "\<lparr>path = ?k, coro = c1, prefix = ''ws/'', reconnects = 0, conn = Some 0,
                socket = None\<rparr>"
    let ?m1 = "m\<lparr>conns := conns m @ [(?k, ?s)], effects := effects m @ [EnsureFuture ?k 0]\<rparr>"
    have first: "start_trade_socket symbol c1 m = (?m1, ?k)"
      using False by (simp add: start_trade_socket_def start_socket_fresh Let_def)
    have "?k \<in> set (map fst (conns ?m1))" by simp
    then have second: "start_trade_socket symbol c2 ?m1 = (?m1, ?k)" by (rule reg)
    have "map_of (conns ?m1) ?k = Some ?s" using map_of_snoc_fresh [OF False, of ?s] by simp
    then show ?thesis using first second by simp
  qed
  show ?thesis
    using two
    by (simp add: start_trade_socket_def start_ticker_socket_def start_multiplex_socket_def
        start_socket_registered Let_def)
qed

text \<open>The trade stream of one symbol started twice, with two handlers.\<close>

theorem start_registered_is_noop_witness:
  "''btcusdt@trade'' \<in> set (map fst (conns (fst (start_trade_socket ''BTCUSDT'' quiet_handler
        (new_manager :: string manager))))) \<and>
   start_trade_socket ''BTCUSDT'' strict_handler
       (fst (start_trade_socket ''BTCUSDT'' quiet_handler new_manager)) =
     (fst (start_trade_socket ''BTCUSDT'' quiet_handler new_manager), ''btcusdt@trade'') \<and>
   map_option coro (map_of (conns (fst (start_trade_socket ''BTCUSDT'' strict_handler
       (fst (start_trade_socket ''BTCUSDT'' quiet_handler new_manager))))) ''btcusdt@trade'')
     = Some quiet_handler"
proof -
  let ?m1 = "fst (start_trade_socket ''BTCUSDT'' quiet_handler (new_manager :: string manager))"
  have k: "lower ''BTCUSDT'' @ ''@trade'' = ''btcusdt@trade''" by (simp add: lower_btcusdt)
  have c1: "conns ?m1 =
      [(''btcusdt@trade'', \<lparr>path = ''btcusdt@trade'', coro = quiet_handler, prefix = ''ws/'',
                             reconnects = 0, conn = Some 0, socket = None\<rparr>)]"
    by (simp add: start_trade_socket_def start_socket_def new_session_def connect_def
        new_manager_def lower_btcusdt Let_def)
  have reg: "lower ''BTCUSDT'' @ ''@trade'' \<in> set (map fst (conns ?m1))"
    by (simp add: c1 k)
  from start_registered_is_noop [where symbol = "''BTCUSDT''" and m = ?m1 and c = strict_handler]
    reg
  have "start_trade_socket ''BTCUSDT'' strict_handler ?m1 = (?m1, ''btcusdt@trade'')"
    by (simp add: k)
  then show ?thesis by (simp add: c1)
qed

section \<open>Stopping streams\<close>

lemma stop_socket_absent:
  "conn_key \<notin> set (map fst (conns m)) \<Longrightarrow> stop_socket conn_key a m = (m, None)"
  by (simp add: stop_socket_def map_of_eq_None_iff [THEN iffD2])

lemma close_returned_empty:
  "snd (close keys aw m) = None \<Longrightarrow> conns (fst (close keys aw m)) = []"
  by (simp add: close_def split: prod.splits option.splits)

text \<open>
  When every await returns, \<^verbatim>\<open>close\<close> stops both streams of the example, closes the one
  transport there is and leaves the registry empty.
\<close>

lemma close_clean_awaits:
  "snd (close [''!ticker@arr'', ''btcusdt@trade''] clean_awaits backoff_manager) = None \<and>
   conns (fst (close [''!ticker@arr'', ''btcusdt@trade''] clean_awaits backoff_manager)) = [] \<and>
   effects (fst (close [''!ticker@arr'', ''btcusdt@trade''] clean_awaits backoff_manager)) =
     [Log (Cancelling ''!ticker@arr''), Log Closing_socket, Close 8, Log Socket_closed,
      CancelTask ''!ticker@arr'' 0, Log Cancelling_task, AwaitTask ''!ticker@arr'' 0,
      Log Task_cancelled,
      Log (Cancelling ''btcusdt@trade''), CancelTask ''btcusdt@trade'' 0, Log Cancelling_task,
      AwaitTask ''btcusdt@trade'' 0, Log Task_cancelled]"
  by (simp add: close_def stop_socket_def cancel_def clean_awaits_def backoff_manager_def
      is_user_key_def Let_def)

text \<open>
  Claim C9 says that \<^verbatim>\<open>close\<close> stops every registered stream and leaves the registry empty,
  with the transport of every session that was live closed. The code does not do so when a
  session is in the backoff sleep of \<^verbatim>\<open>_reconnect\<close>. The task of that session has awaited
  itself in \<^verbatim>\<open>cancel\<close>, so \<^verbatim>\<open>await self._conn\<close> in the \<^verbatim>\<open>cancel\<close> that \<^verbatim>\<open>stop_socket\<close> calls
  raises \<^verbatim>\<open>RuntimeError\<close>, and \<^verbatim>\<open>cancel\<close> catches \<^verbatim>\<open>CancelledError\<close> only. The exception
  leaves \<^verbatim>\<open>stop_socket\<close> before the \<^verbatim>\<open>del\<close> and \<^verbatim>\<open>close\<close> before \<^verbatim>\<open>self._conns = {}\<close>. With
  the trade stream in backoff and the ticker stream connected, \<^verbatim>\<open>close\<close> raises in either
  order of the snapshot and the trade session stays registered; when the trade key comes
  first, the ticker session stays registered as well and its transport is not closed.
\<close>

theorem close_raises_during_backoff:
  "snd (close [''btcusdt@trade'', ''!ticker@arr''] backoff_awaits backoff_manager)
     = Some RuntimeError \<and>
   map fst (conns (fst (close [''btcusdt@trade'', ''!ticker@arr''] backoff_awaits
                          backoff_manager)))
     = [''btcusdt@trade'', ''!ticker@arr''] \<and>
   effects (fst (close [''btcusdt@trade'', ''!ticker@arr''] backoff_awaits backoff_manager))
     = [Log (Cancelling ''btcusdt@trade''), CancelTask ''btcusdt@trade'' 0, Log Cancelling_task,
        AwaitTask ''btcusdt@trade'' 0] \<and>
   snd (close [''!ticker@arr'', ''btcusdt@trade''] backoff_awaits backoff_manager)
     = Some RuntimeError \<and>
   map fst (conns (fst (close [''!ticker@arr'', ''btcusdt@trade''] backoff_awaits
                          backoff_manager)))
     = [''btcusdt@trade''] \<and>
   effects (fst (close [''!ticker@arr'', ''btcusdt@trade''] backoff_awaits backoff_manager))
     = [Log (Cancelling ''!ticker@arr''), Log Closing_socket, Close 8, Log Socket_closed,
        CancelTask ''!ticker@arr'' 0, Log Cancelling_task, AwaitTask ''!ticker@arr'' 0,
        Log Task_cancelled,
        Log (Cancelling ''btcusdt@trade''), CancelTask ''btcusdt@trade'' 0, Log Cancelling_task,
        AwaitTask ''btcusdt@trade'' 0]"
  by (simp add: close_def stop_socket_def cancel_def backoff_awaits_def backoff_manager_def
      is_user_key_def Let_def)

section \<open>The user stream\<close>

lemma user_manager_60_val:
  "user_manager_60 =
     \<lparr>conns = [(listen_key_60a,
                \<lparr>path = listen_key_60a, coro = handler_of (Some quiet_handler), prefix = ''ws/'',
                   reconnects = 0, conn = Some 0, socket = None\<rparr>)],
      user_timer = Some 0, user_listen_key = Some listen_key_60a,
      user_callback = Some quiet_handler, timers = 1,
      effects = [StreamGetListenKey, EnsureFuture listen_key_60a 0, CallLater 1800 0]\<rparr>"
  by (simp add: user_manager_60_def start_user_socket_def priv_start_user_socket_def
      start_socket_def new_session_def connect_def start_user_timer_def new_manager_def
      user_timeout_def listen_key_60a_def Let_def)

lemma user_manager_64_val:
  "user_manager_64 =
     \<lparr>conns = [(listen_key_64a,
                \<lparr>path = listen_key_64a, coro = handler_of (Some quiet_handler), prefix = ''ws/'',
                   reconnects = 0, conn = Some 0, socket = None\<rparr>)],
      user_timer = Some 0, user_listen_key = Some listen_key_64a,
      user_callback = Some quiet_handler, timers = 1,
      effects = [StreamGetListenKey, EnsureFuture listen_key_64a 0, CallLater 1800 0]\<rparr>"
  by (simp add: user_manager_64_def start_user_socket_def priv_start_user_socket_def
      start_socket_def new_session_def connect_def start_user_timer_def new_manager_def
      user_timeout_def listen_key_64a_def Let_def)

lemma len_60a: "length listen_key_60a = 60"
  by (simp add: listen_key_60a_def)

lemma len_60b: "length listen_key_60b = 60"
  by (simp add: listen_key_60b_def)

lemma len_64a: "length listen_key_64a = 64"
  by (simp add: listen_key_64a_def)

lemma len_64b: "length listen_key_64b = 64"
  by (simp add: listen_key_64b_def)

lemma neq_60: "listen_key_60b \<noteq> listen_key_60a"
  by (simp add: listen_key_60a_def listen_key_60b_def)

lemma neq_64: "listen_key_64b \<noteq> listen_key_64a"
  by (simp add: listen_key_64a_def listen_key_64b_def)

lemma handler_of_Some: "handler_of (Some h) = h"
  by (rule ext) (simp add: handler_of_def)

text \<open>
  The manager's test for the key of the user stream compares the first 60 characters of an
  identifier with the whole stored key: it holds for the stored key itself when that key
  has 60 characters, and for no identifier when the stored key has another length.
\<close>

lemma is_user_key_self: "length old = 60 \<Longrightarrow> is_user_key (Some old) old"
  by (simp add: is_user_key_def)

lemma is_user_key_length: "is_user_key (Some old) k \<Longrightarrow> length old = 60"
  by (auto simp: is_user_key_def)

lemma not_user_key_64: "length k = 64 \<Longrightarrow> \<not> is_user_key (Some k) k'"
  by (auto simp: is_user_key_def)

text \<open>
  With keys of 60 characters a renewal under a changed key stops the old session, cancels
  the old timer, revokes the old key and registers the new one; when the await in
  \<^verbatim>\<open>cancel\<close> raises \<^verbatim>\<open>RuntimeError\<close>, the renewal ends with that exception and the old
  session registered. With an unchanged key the timer alone is armed again.
\<close>

lemma keepalive_same_key:
  "user_listen_key m = Some key \<Longrightarrow>
   keepalive_user_socket key a m =
     (start_user_timer (m\<lparr>effects := effects m @ [StreamGetListenKey]\<rparr>), None)"
  by (simp add: keepalive_user_socket_def Let_def)

lemma keepalive_rotation_60:
  "snd (keepalive_user_socket listen_key_60b AwaitReturns user_manager_60) = None \<and>
   map fst (conns (fst (keepalive_user_socket listen_key_60b AwaitReturns user_manager_60)))
     = [listen_key_60b] \<and>
   effects (fst (keepalive_user_socket listen_key_60b AwaitReturns user_manager_60))
     = effects user_manager_60
       @ [StreamGetListenKey, Log (Cancelling listen_key_60a), CancelTask listen_key_60a 0,
          Log Cancelling_task, AwaitTask listen_key_60a 0, Log Task_cancelled, TimerCancel 0,
          StreamClose listen_key_60a, EnsureFuture listen_key_60b 0, CallLater 1800 1]"
proof -
  have u: "is_user_key (Some listen_key_60a) listen_key_60a"
    using len_60a by (rule is_user_key_self)
  have ne: "listen_key_60a \<noteq> []"
    using len_60a by auto
  have ne': "listen_key_60b \<noteq> []"
    using len_60b by auto
  show ?thesis
    using neq_60 u ne ne'
    by (simp add: keepalive_user_socket_def priv_start_user_socket_def stop_socket_def
        cancel_def stop_user_socket_def start_socket_def new_session_def connect_def
        start_user_timer_def user_timeout_def user_manager_60_val Let_def)
qed

lemma keepalive_rotation_60_raises:
  "snd (keepalive_user_socket listen_key_60b (AwaitRaises RuntimeError) user_manager_60)
     = Some RuntimeError \<and>
   map fst (conns (fst (keepalive_user_socket listen_key_60b (AwaitRaises RuntimeError)
                          user_manager_60)))
     = [listen_key_60a]"
proof -
  have u: "is_user_key (Some listen_key_60a) listen_key_60a"
    using len_60a by (rule is_user_key_self)
  have ne: "listen_key_60a \<noteq> []"
    using len_60a by auto
  show ?thesis
    using neq_60 u ne
    by (simp add: keepalive_user_socket_def priv_start_user_socket_def stop_socket_def
        cancel_def user_manager_60_val Let_def)
qed

text \<open>
  Claim C2 says that a renewal under a changed key is one stop and one start, after which
  exactly one session of the user stream is registered, under the new key. The code does
  not do so for listen keys that are not 60 characters long. \<^verbatim>\<open>_start_user_socket\<close> looks
  for the session to stop with the test
  \<^verbatim>\<open>len(conn_key) >= 60 and conn_key[:60] == self._user_listen_key\<close>, under the comment
  ``cleanup any sockets with this key'', and \<^verbatim>\<open>_keepalive_user_socket\<close> relies on it
  (``\<^verbatim>\<open>_start_user_socket\<close> automatically cleanup open sockets''); with the number 60 written
  into the test, no identifier passes it for a stored key of 64 characters. For the manager
  that \<^verbatim>\<open>start_user_socket\<close> has built with such a key, and whatever an await in \<^verbatim>\<open>cancel\<close>
  would answer, the renewal under another key of 64 characters stops nothing: both keys are
  registered afterwards, the old session is as it was, no task is cancelled, no transport is
  closed and the old key is not closed through the client.
\<close>

theorem keepalive_keeps_old_session:
  "snd (keepalive_user_socket listen_key_64b a user_manager_64) = None \<and>
   map fst (conns (fst (keepalive_user_socket listen_key_64b a user_manager_64)))
     = [listen_key_64a, listen_key_64b] \<and>
   map_of (conns (fst (keepalive_user_socket listen_key_64b a user_manager_64))) listen_key_64a
     = map_of (conns user_manager_64) listen_key_64a \<and>
   user_listen_key (fst (keepalive_user_socket listen_key_64b a user_manager_64))
     = Some listen_key_64b \<and>
   effects (fst (keepalive_user_socket listen_key_64b a user_manager_64))
     = effects user_manager_64
       @ [StreamGetListenKey, EnsureFuture listen_key_64b 0, CallLater 1800 1]"
proof -
  have nu: "\<not> is_user_key (Some listen_key_64a) listen_key_64a"
    using len_64a by (rule not_user_key_64)
  have ne: "listen_key_64b \<noteq> []"
    using len_64b by auto
  show ?thesis
    using neq_64 nu ne
    by (simp add: keepalive_user_socket_def priv_start_user_socket_def start_socket_def
        new_session_def connect_def start_user_timer_def user_timeout_def
        user_manager_64_val Let_def)
qed

text \<open>
  Claim C10 says that starting the user socket while its session is registered is never a
  no-op: the existing session is cancelled and removed, its timer cancelled and its key
  closed through the client, and a fresh session is registered and a timer armed, also
  when the key obtained equals the stored one. The code does not do so for a listen key
  that is not 60 characters long, by the same test as in claim C2 (the number 60 written
  into \<^verbatim>\<open>len(conn_key) >= 60 and conn_key[:60] == self._user_listen_key\<close>, under the comment
  ``cleanup any sockets with this key''). For the manager that \<^verbatim>\<open>start_user_socket\<close> has
  built with a key of 64 characters, and whatever an await in \<^verbatim>\<open>cancel\<close> would answer,
  starting the user socket again with another handler and the same key stops nothing,
  \<^verbatim>\<open>_start_socket\<close> finds the key registered and returns \<^verbatim>\<open>None\<close>, and no timer is armed:
  the call asks the client for the key, stores the new callback and returns \<^verbatim>\<open>None\<close>, and
  the registered session keeps the old handler.
\<close>

theorem restart_user_socket_is_noop:
  "start_user_socket listen_key_64a strict_handler a user_manager_64 =
     (user_manager_64\<lparr>user_callback := Some strict_handler,
                       effects := effects user_manager_64 @ [StreamGetListenKey]\<rparr>,
      Inr None)"
proof -
  have nu: "\<not> is_user_key (Some listen_key_64a) listen_key_64a"
    using len_64a by (rule not_user_key_64)
  have ne: "listen_key_64a \<noteq> []"
    using len_64a by auto
  show ?thesis
    using nu ne
    by (simp add: start_user_socket_def priv_start_user_socket_def start_socket_def
        user_manager_64_val Let_def)
qed

end
